theory Spec2Isabelle
  imports Complex_Main
begin

section \<open>Python exceptions\<close>

text \<open>
  The exception classes that the handlers of the monitor distinguish, with the class
  hierarchy of Python and psutil: \<open>supers c\<close> lists \<open>c\<close> and its base classes, so that
  \<open>except C\<close> catches an exception exactly when \<open>C\<close> is among the supers of its class.
  \<open>SystemExit\<close> and \<open>KeyboardInterrupt\<close> derive from \<open>BaseException\<close> only;
  \<open>ZombieProcess\<close> derives from \<open>NoSuchProcess\<close> (psutil);
  \<open>SubprocessTimeout\<close> is \<open>subprocess.TimeoutExpired\<close>, \<open>PsTimeoutExpired\<close> is
  \<open>psutil.TimeoutExpired\<close>. Any other class deriving from \<open>Exception\<close> (also a user's
  own) is represented by \<open>Exception\<close> itself.
\<close>

datatype exc_class =
    BaseException | SystemExit | KeyboardInterrupt
  | Exception | TypeError | ValueError | ZeroDivisionError
  | OSError | PermissionError | FileNotFoundError
  | SubprocessError | SubprocessTimeout
  | PsutilError | NoSuchProcess | ZombieProcess | AccessDenied | PsTimeoutExpired

fun supers :: "exc_class \<Rightarrow> exc_class list" where
  "supers BaseException = [BaseException]"
| "supers SystemExit = [SystemExit, BaseException]"
| "supers KeyboardInterrupt = [KeyboardInterrupt, BaseException]"
| "supers Exception = [Exception, BaseException]"
| "supers TypeError = [TypeError, Exception, BaseException]"
| "supers ValueError = [ValueError, Exception, BaseException]"
| "supers ZeroDivisionError = [ZeroDivisionError, Exception, BaseException]"
| "supers OSError = [OSError, Exception, BaseException]"
| "supers PermissionError = [PermissionError, OSError, Exception, BaseException]"
| "supers FileNotFoundError = [FileNotFoundError, OSError, Exception, BaseException]"
| "supers SubprocessError = [SubprocessError, Exception, BaseException]"
| "supers SubprocessTimeout = [SubprocessTimeout, SubprocessError, Exception, BaseException]"
| "supers PsutilError = [PsutilError, Exception, BaseException]"
| "supers NoSuchProcess = [NoSuchProcess, PsutilError, Exception, BaseException]"
| "supers ZombieProcess =
     [ZombieProcess, NoSuchProcess, PsutilError, Exception, BaseException]"
| "supers AccessDenied = [AccessDenied, PsutilError, Exception, BaseException]"
| "supers PsTimeoutExpired = [PsTimeoutExpired, PsutilError, Exception, BaseException]"

text \<open>An exception instance: its class and the text that \<open>str(e)\<close> yields.\<close>

datatype exc = Exc exc_class string

fun exc_cls :: "exc \<Rightarrow> exc_class" where
  "exc_cls (Exc c m) = c"

fun exc_str :: "exc \<Rightarrow> string" where
  "exc_str (Exc c m) = m"

definition isinstance :: "exc \<Rightarrow> exc_class \<Rightarrow> bool" where
  "isinstance e c = (c \<in> set (supers (exc_cls e)))"

text \<open>
  Statements in sequence: \<open>and_then r f\<close> runs \<open>f\<close> on the value of \<open>r\<close>, and an
  exception raised by \<open>r\<close> leaves the enclosing function at once.
\<close>

definition and_then :: "exc + 'a \<Rightarrow> ('a \<Rightarrow> exc + 'b) \<Rightarrow> exc + 'b" where
  "and_then r f = (case r of Inl e \<Rightarrow> Inl e | Inr v \<Rightarrow> f v)"

section \<open>The history buffer: \<open>collections.deque\<close> with \<open>maxlen\<close>\<close>

text \<open>
  \<open>AppController.__init__\<close> builds the history as \<open>deque(maxlen=...)\<close>.
  The deque keeps its items oldest first. \<open>deque(maxlen=n)\<close> raises
  \<open>ValueError\<close> for a negative \<open>n\<close>; \<open>append\<close> adds the item on the right and, when the
  size then exceeds \<open>maxlen\<close>, removes the leftmost item; \<open>maxlen\<close> is read-only.
  \<open>list(d)\<close> copies the items in order.
\<close>

record 'a deque =
  items :: "'a list"
  maxlen :: nat


definition deque_append :: "'a deque \<Rightarrow> 'a \<Rightarrow> 'a deque" where
  "deque_append d x =
     (let ys = items d @ [x]
      in if maxlen d < length ys then d\<lparr>items := tl ys\<rparr> else d\<lparr>items := ys\<rparr>)"

definition deque_list :: "'a deque \<Rightarrow> 'a list" where
  "deque_list d = items d"

text \<open>A run of appends, in order, as the collection cycles perform them.\<close>

fun deque_appends :: "'a deque \<Rightarrow> 'a list \<Rightarrow> 'a deque" where
  "deque_appends d [] = d"
| "deque_appends d (x # xs) = deque_appends (deque_append d x) xs"

section \<open>The metrics source: \<open>SystemData\<close>\<close>

text \<open>
  The values that psutil hands out. Python floats are taken as reals; the metrics only
  pass through (one division and one product apart), so no claim depends on rounding.
\<close>

record scpufreq =
  freq_current :: real
  freq_min :: real
  freq_max :: real

record svmem =
  vm_total :: int
  vm_available :: int
  vm_used :: int
  vm_percent :: real
  vm_buffers :: "int option"
  vm_cached :: "int option"
  vm_shared :: "int option"

record sdiskpart =
  part_device :: string
  part_mountpoint :: string
  part_fstype :: string

record sdiskusage =
  du_total :: int
  du_used :: int
  du_free :: int
  du_percent :: real

record snetio =
  io_bytes_sent :: int
  io_bytes_recv :: int
  io_packets_sent :: int
  io_packets_recv :: int
  io_errin :: int
  io_errout :: int

text \<open>
  What the operating system answers during one collection cycle: every query either
  raises or returns. \<open>q_ram_fragmentation\<close> and \<open>q_disk_fragmentation\<close> are the
  outcomes of \<open>_get_ram_fragmentation_linux\<close> (a read of /proc/buddyinfo) and of
  \<open>_get_disk_fragmentation_linux\<close> (a cached run of e4defrag); their values pass
  through unread. \<open>q_net_time\<close> and \<open>q_timestamp\<close> are the two readings of
  \<open>time.time()\<close>, \<open>q_isoformat\<close> is \<open>datetime.now().isoformat()\<close>, and
  \<open>q_console\<close> is the outcome of the textual dump \<open>_print_metrics_to_console\<close>
  (\<open>None\<close> when it returns).
\<close>

record cpu_metrics =
  total_percent :: real
  per_core_percent :: "real list"
  core_count :: "int option"
  logical_count :: "int option"
  frequency :: "scpufreq option"

record ram_metrics =
  ram_total :: int
  ram_available :: int
  ram_used :: int
  ram_percent :: real
  ram_fragmentation :: "real option"
  ram_buffers :: int
  ram_cached :: int
  ram_shared :: int

record partition_data =
  pd_device :: string
  pd_mountpoint :: string
  pd_fstype :: string
  pd_total :: int
  pd_used :: int
  pd_free :: int
  pd_percent :: real
  pd_fragmentation :: "real option"

record total_usage =
  tu_total :: int
  tu_used :: int
  tu_free :: int
  tu_percent :: real

record storage_metrics =
  partitions :: "partition_data list"
  storage_total_usage :: total_usage

record network_metrics =
  bytes_sent :: int
  bytes_recv :: int
  total_bytes_sent :: int
  total_bytes_recv :: int
  upload_speed :: real
  download_speed :: real
  packets_sent :: int
  packets_recv :: int
  errin :: int
  errout :: int

record all_metrics =
  cpu :: cpu_metrics
  ram :: ram_metrics
  storage :: storage_metrics
  network :: network_metrics
  timestamp :: real
  read_time :: "string option"

record os_env =
  q_cpu_percent :: "exc + real"
  q_cpu_percent_percpu :: "exc + real list"
  q_cpu_freq :: "exc + scpufreq option"
  q_cpu_count_physical :: "exc + int option"
  q_cpu_count_logical :: "exc + int option"
  q_virtual_memory :: "exc + svmem"
  q_ram_fragmentation :: "exc + real option"
  q_disk_partitions :: "exc + sdiskpart list"
  q_disk_usage :: "string \<Rightarrow> exc + sdiskusage"
  q_disk_fragmentation :: "string \<Rightarrow> string \<Rightarrow> exc + real option"
  q_net_io_counters :: "exc + snetio"
  q_net_time :: real
  q_timestamp :: real
  q_isoformat :: string
  q_console :: "all_metrics \<Rightarrow> exc option"

text \<open>The fields of a \<open>SystemData\<close> object that the network group reads and writes.\<close>

record system_data =
  last_net_io :: snetio
  last_net_time :: real


definition get_cpu_metrics :: "os_env \<Rightarrow> exc + cpu_metrics" where
  "get_cpu_metrics env =
     and_then (q_cpu_percent env) (\<lambda>tot.
     and_then (q_cpu_percent_percpu env) (\<lambda>per.
     and_then (q_cpu_freq env) (\<lambda>fr.
     and_then (q_cpu_count_physical env) (\<lambda>phys.
     and_then (q_cpu_count_logical env) (\<lambda>logi.
       Inr \<lparr>total_percent = tot, per_core_percent = per, core_count = phys,
            logical_count = logi, frequency = fr\<rparr>)))))"

definition getattr0 :: "int option \<Rightarrow> int" where
  "getattr0 a = (case a of None \<Rightarrow> 0 | Some v \<Rightarrow> v)"

definition get_ram_metrics :: "os_env \<Rightarrow> exc + ram_metrics" where
  "get_ram_metrics env =
     and_then (q_virtual_memory env) (\<lambda>m.
     and_then (q_ram_fragmentation env) (\<lambda>fragm.
       Inr \<lparr>ram_total = vm_total m, ram_available = vm_available m,
            ram_used = vm_used m, ram_percent = vm_percent m,
            ram_fragmentation = fragm,
            ram_buffers = getattr0 (vm_buffers m),
            ram_cached = getattr0 (vm_cached m),
            ram_shared = getattr0 (vm_shared m)\<rparr>))"

text \<open>
  The loop of \<open>get_storage_metrics\<close> over the partitions: an inaccessible partition
  (\<open>PermissionError\<close>, \<open>OSError\<close>) is skipped, any other exception leaves the loop.
\<close>

definition skipped_partition :: "exc \<Rightarrow> bool" where
  "skipped_partition e = (isinstance e PermissionError \<or> isinstance e OSError)"

fun storage_loop ::
  "os_env \<Rightarrow> sdiskpart list \<Rightarrow> partition_data list \<times> int \<times> int
   \<Rightarrow> exc + (partition_data list \<times> int \<times> int)" where
  "storage_loop env [] acc = Inr acc"
| "storage_loop env (p # ps) (info, total_used, total_size) =
     (case q_disk_usage env (part_mountpoint p) of
        Inl e \<Rightarrow>
          if skipped_partition e then storage_loop env ps (info, total_used, total_size)
          else Inl e
      | Inr u \<Rightarrow>
          (case q_disk_fragmentation env (part_mountpoint p) (part_fstype p) of
             Inl e \<Rightarrow>
               if skipped_partition e
               then storage_loop env ps (info, total_used, total_size)
               else Inl e
           | Inr fragm \<Rightarrow>
               storage_loop env ps
                 (info @ [\<lparr>pd_device = part_device p, pd_mountpoint = part_mountpoint p,
                            pd_fstype = part_fstype p, pd_total = du_total u,
                            pd_used = du_used u, pd_free = du_free u,
                            pd_percent = du_percent u, pd_fragmentation = fragm\<rparr>],
                  total_used + du_used u, total_size + du_total u)))"

definition get_storage_metrics :: "os_env \<Rightarrow> exc + storage_metrics" where
  "get_storage_metrics env =
     and_then (q_disk_partitions env) (\<lambda>ps.
     and_then (storage_loop env ps ([], 0, 0)) (\<lambda>(info, total_used, total_size).
       Inr \<lparr>partitions = info,
            storage_total_usage =
              \<lparr>tu_total = total_size, tu_used = total_used,
               tu_free = total_size - total_used,
               tu_percent = (if 0 < total_size
                             then real_of_int total_used / real_of_int total_size * 100
                             else 0)\<rparr>\<rparr>))"

definition get_network_metrics ::
  "system_data \<Rightarrow> os_env \<Rightarrow> exc + (network_metrics \<times> system_data)" where
  "get_network_metrics sd env =
     and_then (q_net_io_counters env) (\<lambda>cur.
       let current_time = q_net_time env;
           time_delta = current_time - last_net_time sd;
           bytes_sent_delta = io_bytes_sent cur - io_bytes_sent (last_net_io sd);
           bytes_recv_delta = io_bytes_recv cur - io_bytes_recv (last_net_io sd);
           up = (if 0 < time_delta then real_of_int bytes_sent_delta / time_delta else 0);
           down = (if 0 < time_delta then real_of_int bytes_recv_delta / time_delta else 0)
       in Inr (\<lparr>bytes_sent = bytes_sent_delta, bytes_recv = bytes_recv_delta,
                 total_bytes_sent = io_bytes_sent cur,
                 total_bytes_recv = io_bytes_recv cur,
                 upload_speed = up, download_speed = down,
                 packets_sent = io_packets_sent cur,
                 packets_recv = io_packets_recv cur,
                 errin = io_errin cur, errout = io_errout cur\<rparr>,
                \<lparr>last_net_io = cur, last_net_time = current_time\<rparr>))"

text \<open>
  \<open>get_all_metrics\<close> queries the four groups in the order of its dictionary display;
  the first exception of a group leaves the function. No group is guarded.
\<close>

definition get_all_metrics ::
  "system_data \<Rightarrow> os_env \<Rightarrow> exc + (all_metrics \<times> system_data)" where
  "get_all_metrics sd env =
     and_then (get_cpu_metrics env) (\<lambda>c.
     and_then (get_ram_metrics env) (\<lambda>r.
     and_then (get_storage_metrics env) (\<lambda>st.
     and_then (get_network_metrics sd env) (\<lambda>(n, sd').
       Inr (\<lparr>cpu = c, ram = r, storage = st, network = n,
             timestamp = q_timestamp env, read_time = None\<rparr>, sd')))))"

section \<open>The controller: \<open>AppController\<close>\<close>







record history_entry =
  h_timestamp :: real
  h_cpu_percent :: real
  h_ram_percent :: real
  h_network_upload :: real
  h_network_download :: real

text \<open>
  The controller's fields, and what it has put out: \<open>stdout\<close> holds the lines printed,
  \<open>delivered\<close> the readings passed to the registered view callback, \<open>dumped\<close> the
  readings printed by the default console view. A view callback is a function of the
  reading that returns (\<open>None\<close>) or raises.
\<close>

record app_controller =
  sysdata :: system_data
  metrics_history :: "history_entry deque"
  current_metrics :: "all_metrics option"
  is_monitoring :: bool
  view_callback :: "(all_metrics \<Rightarrow> exc option) option"
  stdout :: "string list"
  delivered :: "all_metrics list"
  dumped :: "all_metrics list"


definition set_view_callback ::
  "app_controller \<Rightarrow> (all_metrics \<Rightarrow> exc option) \<Rightarrow> app_controller" where
  "set_view_callback s cb =
     s\<lparr>view_callback := Some cb,
       stdout := stdout s @ [''[AppController] View callback registered.'']\<rparr>"

text \<open>
  \<open>_notify_view\<close>: the registered callback receives the current reading; without a
  callback the reading is dumped on the console. The result is the exception that the
  callback or the dump raised, if any.
\<close>

definition notify_view :: "app_controller \<Rightarrow> os_env \<Rightarrow> app_controller \<times> exc option" where
  "notify_view s env =
     (case current_metrics s of
        None \<Rightarrow> (s, None)
      | Some m \<Rightarrow>
          (case view_callback s of
             Some cb \<Rightarrow> (s\<lparr>delivered := delivered s @ [m]\<rparr>, cb m)
           | None \<Rightarrow> (s\<lparr>dumped := dumped s @ [m]\<rparr>, q_console env m)))"

definition history_entry_of :: "all_metrics \<Rightarrow> history_entry" where
  "history_entry_of m =
     \<lparr>h_timestamp = timestamp m,
      h_cpu_percent = total_percent (cpu m),
      h_ram_percent = ram_percent (ram m),
      h_network_upload = upload_speed (network m),
      h_network_download = download_speed (network m)\<rparr>"

text \<open>
  The handler \<open>except Exception as e\<close> of \<open>update_metrics\<close>: an instance of
  \<open>Exception\<close> becomes one printed line, anything else goes on to the caller.
\<close>

definition update_metrics_except ::
  "app_controller \<Rightarrow> exc \<Rightarrow> app_controller \<times> exc option" where
  "update_metrics_except s e =
     (if isinstance e Exception
      then (s\<lparr>stdout := stdout s @ [''[AppController] Error updating metrics: '' @ exc_str e]\<rparr>,
            None)
      else (s, Some e))"

text \<open>
  \<open>update_metrics\<close>, one collection cycle: query, store as current reading with its
  \<open>read_time\<close>, append to the history, notify. The second component is the exception
  that leaves \<open>update_metrics\<close>, if any.
\<close>

definition update_metrics :: "app_controller \<Rightarrow> os_env \<Rightarrow> app_controller \<times> exc option" where
  "update_metrics s env =
     (case get_all_metrics (sysdata s) env of
        Inl e \<Rightarrow> update_metrics_except s e
      | Inr (m, sd') \<Rightarrow>
          (let m' = m\<lparr>read_time := Some (q_isoformat env)\<rparr>;
               s1 = s\<lparr>sysdata := sd', current_metrics := Some m'\<rparr>;
               s2 = s1\<lparr>metrics_history :=
                          deque_append (metrics_history s1) (history_entry_of m')\<rparr>
           in case notify_view s2 env of
                (s3, None) \<Rightarrow> (s3, None)
              | (s3, Some e) \<Rightarrow> update_metrics_except s3 e))"

definition get_metrics_history :: "app_controller \<Rightarrow> history_entry list" where
  "get_metrics_history s = deque_list (metrics_history s)"

definition get_current_metrics :: "app_controller \<Rightarrow> all_metrics option" where
  "get_current_metrics s = current_metrics s"



subsection \<open>A concrete machine\<close>

text \<open>
  One answer of the operating system in which every query succeeds, the same answer
  with the network counters failing, and a controller with the shipped capacity and a
  registered view callback that always returns.
\<close>

definition sample_netio :: snetio where
  "sample_netio =
     \<lparr>io_bytes_sent = 1000, io_bytes_recv = 2000, io_packets_sent = 10,
      io_packets_recv = 20, io_errin = 0, io_errout = 0\<rparr>"

definition sample_env :: os_env where
  "sample_env =
     \<lparr>q_cpu_percent = Inr 25,
      q_cpu_percent_percpu = Inr [20, 30],
      q_cpu_freq = Inr (Some \<lparr>freq_current = 1800, freq_min = 800, freq_max = 3600\<rparr>),
      q_cpu_count_physical = Inr (Some 1),
      q_cpu_count_logical = Inr (Some 2),
      q_virtual_memory =
        Inr \<lparr>vm_total = 8000, vm_available = 6000, vm_used = 2000, vm_percent = 25,
             vm_buffers = Some 100, vm_cached = Some 200, vm_shared = None\<rparr>,
      q_ram_fragmentation = Inr None,
      q_disk_partitions =
        Inr [\<lparr>part_device = ''/dev/sda1'', part_mountpoint = ''/'',
              part_fstype = ''ext4''\<rparr>],
      q_disk_usage =
        (\<lambda>mp. Inr \<lparr>du_total = 500, du_used = 100, du_free = 400, du_percent = 20\<rparr>),
      q_disk_fragmentation = (\<lambda>mp fs. Inr None),
      q_net_io_counters =
        Inr \<lparr>io_bytes_sent = 1400, io_bytes_recv = 2600, io_packets_sent = 12,
             io_packets_recv = 26, io_errin = 0, io_errout = 0\<rparr>,
      q_net_time = 12,
      q_timestamp = 12,
      q_isoformat = ''2025-01-01T00:00:12'',
      q_console = (\<lambda>m. None)\<rparr>"

definition env_network_down :: os_env where
  "env_network_down =
     sample_env\<lparr>q_net_io_counters := Inl (Exc OSError ''network is down'')\<rparr>"

definition sample_controller :: app_controller where
  "sample_controller =
     \<lparr>sysdata = \<lparr>last_net_io = sample_netio, last_net_time = 10\<rparr>,
      metrics_history = \<lparr>items = [], maxlen = 1800\<rparr>,
      current_metrics = None,
      is_monitoring = True,
      view_callback = Some (\<lambda>m. None),
      stdout = [],
      delivered = [],
      dumped = []\<rparr>"



section \<open>Text of numbers\<close>

text \<open>\<open>str(n)\<close> of an integer, as the f-strings of the messages render it.\<close>

fun str_nat :: "nat \<Rightarrow> string" where
  "str_nat n =
     (if n < 10 then [''0123456789'' ! n]
      else str_nat (n div 10) @ [''0123456789'' ! (n mod 10)])"

declare str_nat.simps [simp del]

definition str_int :: "int \<Rightarrow> string" where
  "str_int i = (if i < 0 then ''-'' @ str_nat (nat (- i)) else str_nat (nat i))"

definition str_bool :: "bool \<Rightarrow> string" where
  "str_bool b = (if b then ''True'' else ''False'')"

section \<open>Ending a process: \<open>ProcessManager.kill_process\<close>\<close>

text \<open>
  The answers of psutil for a process id: building \<open>psutil.Process(pid)\<close>, reading
  its name, sending the signal, and \<open>proc.wait(timeout=3)\<close>. Each either returns or
  raises.
\<close>

record ps_env =
  ps_Process :: "int \<Rightarrow> exc option"
  ps_name :: "int \<Rightarrow> exc + string"
  ps_kill :: "int \<Rightarrow> exc option"
  ps_terminate :: "int \<Rightarrow> exc option"
  ps_wait :: "int \<Rightarrow> exc option"

text \<open>The returned dictionary, with its keys \<open>success\<close>, \<open>message\<close> and \<open>pid\<close>.\<close>

record kill_result =
  kr_success :: bool
  kr_message :: string
  kr_pid :: int

definition raised :: "exc option \<Rightarrow> exc + unit" where
  "raised r = (case r of None \<Rightarrow> Inr () | Some e \<Rightarrow> Inl e)"

text \<open>
  The body of the \<open>try\<close>: \<open>Inl\<close> is an exception on its way to the handlers. The
  inner handler takes \<open>psutil.TimeoutExpired\<close> of the wait only.
\<close>

definition kill_process_try :: "ps_env \<Rightarrow> int \<Rightarrow> bool \<Rightarrow> exc + kill_result" where
  "kill_process_try env pid force =
     and_then (raised (ps_Process env pid)) (\<lambda>_.
     and_then (ps_name env pid) (\<lambda>proc_name.
     and_then (raised (if force then ps_kill env pid else ps_terminate env pid)) (\<lambda>_.
       let action = (if force then ''killed (SIGKILL)'' else ''terminated (SIGTERM)'');
           done = \<lparr>kr_success = True,
                   kr_message = ''Process '' @ [CHR 39] @ proc_name @ [CHR 39]
                     @ '' (PID: '' @ str_int pid @ '') was '' @ action
                     @ '' successfully.'',
                   kr_pid = pid\<rparr>
       in case ps_wait env pid of
            None \<Rightarrow> Inr done
          | Some e \<Rightarrow>
              if isinstance e PsTimeoutExpired
              then (if \<not> force
                    then Inr \<lparr>kr_success = False,
                              kr_message = ''Process '' @ [CHR 39] @ proc_name @ [CHR 39]
                                @ '' (PID: '' @ str_int pid
                                @ '') did not terminate gracefully. Try with force=True.'',
                              kr_pid = pid\<rparr>
                    else Inr done)
              else Inl e)))"

text \<open>The handlers, in the order of the source; what none of them takes goes on.\<close>

definition kill_process_except :: "int \<Rightarrow> exc \<Rightarrow> exc + kill_result" where
  "kill_process_except pid e =
     (if isinstance e NoSuchProcess
      then Inr \<lparr>kr_success = False,
                kr_message = ''Process with PID '' @ str_int pid @ '' does not exist.'',
                kr_pid = pid\<rparr>
      else if isinstance e AccessDenied
      then Inr \<lparr>kr_success = False,
                kr_message = ''Access denied. Cannot terminate process with PID ''
                  @ str_int pid @ ''. Try running with elevated privileges.'',
                kr_pid = pid\<rparr>
      else if isinstance e Exception
      then Inr \<lparr>kr_success = False,
                kr_message = ''Error terminating process with PID '' @ str_int pid
                  @ '': '' @ exc_str e,
                kr_pid = pid\<rparr>
      else Inl e)"

definition kill_process :: "ps_env \<Rightarrow> int \<Rightarrow> bool \<Rightarrow> exc + kill_result" where
  "kill_process env pid force =
     (case kill_process_try env pid force of
        Inr r \<Rightarrow> Inr r
      | Inl e \<Rightarrow> kill_process_except pid e)"

text \<open>
  psutil and the operating system report their failures with classes derived from
  \<open>Exception\<close>: the exceptions that the calls for \<open>pid\<close> can raise.
\<close>

definition ps_raises :: "ps_env \<Rightarrow> int \<Rightarrow> exc list" where
  "ps_raises env pid =
     (case ps_Process env pid of None \<Rightarrow> [] | Some e \<Rightarrow> [e])
     @ (case ps_name env pid of Inl e \<Rightarrow> [e] | Inr _ \<Rightarrow> [])
     @ (case ps_kill env pid of None \<Rightarrow> [] | Some e \<Rightarrow> [e])
     @ (case ps_terminate env pid of None \<Rightarrow> [] | Some e \<Rightarrow> [e])
     @ (case ps_wait env pid of None \<Rightarrow> [] | Some e \<Rightarrow> [e])"

definition no_such_process_env :: ps_env where
  "no_such_process_env =
     \<lparr>ps_Process = (\<lambda>pid. Some (Exc NoSuchProcess ''process no longer exists'')),
      ps_name = (\<lambda>pid. Inr ''sleep''),
      ps_kill = (\<lambda>pid. None),
      ps_terminate = (\<lambda>pid. None),
      ps_wait = (\<lambda>pid. None)\<rparr>"

text \<open>A process that takes the signal but is still there after the three seconds.\<close>

definition lingering_process_env :: ps_env where
  "lingering_process_env =
     \<lparr>ps_Process = (\<lambda>pid. None),
      ps_name = (\<lambda>pid. Inr ''sleep''),
      ps_kill = (\<lambda>pid. None),
      ps_terminate = (\<lambda>pid. None),
      ps_wait = (\<lambda>pid. Some (Exc PsTimeoutExpired ''timeout after 3 seconds''))\<rparr>"

section \<open>The periodic scheduler: \<open>ThreadManager\<close>\<close>

text \<open>
  Every \<open>Thread\<close> and every \<open>Event\<close> that the manager creates is an object of its
  own: \<open>pool\<close> lists the threads and \<open>events\<close> the flags of the events, in the order of
  creation, and the two dictionaries \<open>_threads\<close> and \<open>_stop_events\<close> map a name to the
  position of its current object. A thread is alive from \<open>start()\<close> until its
  \<open>run()\<close> ends. The lines printed are kept by kind and argument.
\<close>

datatype tm_print =
    AlreadyRunning string
  | StartedWith string real
  | NotFound string
  | NotRunning string
  | DidNotStop string
  | StoppedOk string

record 'cb thread_obj =
  t_name :: string
  t_callback :: 'cb
  t_interval :: real
  t_event :: nat
  t_started :: bool
  t_finished :: bool

record 'cb thread_manager =
  threads :: "string \<Rightarrow> nat option"
  stop_events :: "string \<Rightarrow> nat option"
  pool :: "'cb thread_obj list"
  events :: "bool list"
  printed :: "tm_print list"

definition ThreadManager_init :: "'cb thread_manager" where
  "ThreadManager_init =
     \<lparr>threads = Map.empty, stop_events = Map.empty, pool = [], events = [],
      printed = []\<rparr>"

definition is_alive :: "'cb thread_manager \<Rightarrow> nat \<Rightarrow> bool" where
  "is_alive tm i =
     (i < length (pool tm) \<and> t_started (pool tm ! i) \<and> \<not> t_finished (pool tm ! i))"

text \<open>
  \<open>start_data_collection_thread\<close>, under the manager's lock. \<open>start_raises\<close> is the
  outcome of \<open>thread.start()\<close> (\<open>RuntimeError\<close> when the system has no thread left),
  which the method does not catch.
\<close>

definition start_data_collection_thread ::
  "'cb thread_manager \<Rightarrow> 'cb \<Rightarrow> real \<Rightarrow> string \<Rightarrow> exc option
   \<Rightarrow> 'cb thread_manager \<times> (exc + bool)" where
  "start_data_collection_thread tm callback interval thread_name start_raises =
     (if (case threads tm thread_name of None \<Rightarrow> False | Some i \<Rightarrow> is_alive tm i)
      then (tm\<lparr>printed := printed tm @ [AlreadyRunning thread_name]\<rparr>, Inr False)
      else
        let ev = length (events tm);
            tid = length (pool tm);
            thread = \<lparr>t_name = thread_name, t_callback = callback,
                      t_interval = interval, t_event = ev,
                      t_started = False, t_finished = False\<rparr>;
            tm1 = tm\<lparr>events := events tm @ [False],
                     stop_events := (stop_events tm)(thread_name \<mapsto> ev),
                     pool := pool tm @ [thread],
                     threads := (threads tm)(thread_name \<mapsto> tid)\<rparr>
        in case start_raises of
             Some e \<Rightarrow> (tm1, Inl e)
           | None \<Rightarrow>
               (tm1\<lparr>pool := pool tm @ [thread\<lparr>t_started := True\<rparr>],
                    printed := printed tm @ [StartedWith thread_name interval]\<rparr>,
                Inr True))"

text \<open>
  \<open>thread.join(timeout)\<close>, called at \<open>now\<close> on a thread whose \<open>run()\<close> ends at
  \<open>exit_at\<close> (\<open>None\<close>: it does not end): the caller goes on when the thread has ended
  or when the timeout has passed, whichever is first. A negative timeout counts as zero.
\<close>

definition join_deadline :: "real \<Rightarrow> real \<Rightarrow> real" where
  "join_deadline now timeout = now + max timeout 0"

definition ended_by :: "real option \<Rightarrow> real \<Rightarrow> bool" where
  "ended_by exit_at deadline = (case exit_at of None \<Rightarrow> False | Some te \<Rightarrow> te \<le> deadline)"

definition join_returns :: "real \<Rightarrow> real \<Rightarrow> real option \<Rightarrow> real" where
  "join_returns now timeout exit_at =
     (case exit_at of
        None \<Rightarrow> join_deadline now timeout
      | Some te \<Rightarrow> if te \<le> join_deadline now timeout then max now te
                  else join_deadline now timeout)"

definition mark_finished :: "'cb thread_manager \<Rightarrow> nat \<Rightarrow> 'cb thread_manager" where
  "mark_finished tm i =
     (if i < length (pool tm)
      then tm\<lparr>pool := (pool tm)[i := (pool tm ! i)\<lparr>t_finished := True\<rparr>]\<rparr>
      else tm)"

definition event_set :: "'cb thread_manager \<Rightarrow> nat \<Rightarrow> 'cb thread_manager" where
  "event_set tm ev = tm\<lparr>events := (events tm)[ev := True]\<rparr>"

text \<open>
  \<open>stop_thread\<close>, called at \<open>now\<close> from a thread other than the one it stops, under
  the manager's lock. The result is the new state, the returned boolean and the time
  at which the call returns.
\<close>

definition stop_thread ::
  "'cb thread_manager \<Rightarrow> string \<Rightarrow> real \<Rightarrow> real \<Rightarrow> real option
   \<Rightarrow> 'cb thread_manager \<times> bool \<times> real" where
  "stop_thread tm thread_name timeout now exit_at =
     (case threads tm thread_name of
        None \<Rightarrow> (tm\<lparr>printed := printed tm @ [NotFound thread_name]\<rparr>, False, now)
      | Some i \<Rightarrow>
          if \<not> is_alive tm i
          then (tm\<lparr>printed := printed tm @ [NotRunning thread_name]\<rparr>, True, now)
          else
            let tm1 = (case stop_events tm thread_name of
                         None \<Rightarrow> tm
                       | Some ev \<Rightarrow> event_set tm ev);
                tm2 = (if ended_by exit_at (join_deadline now timeout)
                       then mark_finished tm1 i else tm1);
                back = join_returns now timeout exit_at
            in if is_alive tm2 i
               then (tm2\<lparr>printed := printed tm2 @ [DidNotStop thread_name]\<rparr>, False, back)
               else (tm2\<lparr>printed := printed tm2 @ [StoppedOk thread_name]\<rparr>, True, back))"

definition is_thread_running :: "'cb thread_manager \<Rightarrow> string \<Rightarrow> bool" where
  "is_thread_running tm thread_name =
     (case threads tm thread_name of None \<Rightarrow> False | Some i \<Rightarrow> is_alive tm i)"

text \<open>
  The states that a manager can be in: operations under the lock in any order and with
  any arguments, and in between the end of any thread.
\<close>

inductive reachable :: "'cb thread_manager \<Rightarrow> bool" where
  reach_init: "reachable ThreadManager_init"
| reach_start:
    "reachable tm \<Longrightarrow>
     reachable (fst (start_data_collection_thread tm callback interval thread_name start_raises))"
| reach_stop:
    "reachable tm \<Longrightarrow> reachable (fst (stop_thread tm thread_name timeout now exit_at))"
| reach_end: "reachable tm \<Longrightarrow> reachable (mark_finished tm i)"

text \<open>The invariant of the registry: an alive thread is the registered one of its name.\<close>

definition registry_ok :: "'cb thread_manager \<Rightarrow> bool" where
  "registry_ok tm =
     (\<forall>i. is_alive tm i \<longrightarrow> threads tm (t_name (pool tm ! i)) = Some i)"

text \<open>
  Two concrete managers: after \<open>start\<close> of a task named \<open>m\<close> with interval 2, and
  after the thread of that task has ended.
\<close>

definition tm_running_m :: "unit thread_manager" where
  "tm_running_m =
     fst (start_data_collection_thread ThreadManager_init () 2 ''m'' None)"

definition tm_ended_m :: "unit thread_manager" where
  "tm_ended_m = mark_finished tm_running_m 0"

section \<open>The worker loop: \<open>_collection_worker\<close>\<close>

text \<open>
  The worker runs against a clock. Its surroundings are the time \<open>stop_at\<close> at which
  the stop event is set (\<open>None\<close>: never) and, for each invocation of the callback in
  turn, how it ends and how long it takes. The loop test, the handler and the print
  take no time; \<open>stop_event.wait(timeout)\<close> returns when the event is set or the
  timeout has passed, at once if the event is set already. The list of invocations is
  finite: a worker that has used it up and is not stopped is \<open>StillRunning\<close>.
\<close>

datatype work_outcome = Returns | Raises exc

datatype worker_event =
    WorkStarted real
  | WorkReturned real
  | ErrorPrinted real string
  | WaitStarted real
  | WaitEnded real

datatype worker_end = Exited real | Died real exc | StillRunning real

definition is_set :: "real option \<Rightarrow> real \<Rightarrow> bool" where
  "is_set stop_at t = (case stop_at of None \<Rightarrow> False | Some s \<Rightarrow> s \<le> t)"

definition event_wait :: "real option \<Rightarrow> real \<Rightarrow> real \<Rightarrow> real" where
  "event_wait stop_at t timeout =
     (case stop_at of
        None \<Rightarrow> t + max timeout 0
      | Some s \<Rightarrow> if s \<le> t then t else min s (t + max timeout 0))"

text \<open>
  \<open>try: callback() except Exception as e: print(...)\<close>: the handler takes the
  instances of \<open>Exception\<close>; \<open>uncaught\<close> is the exception that leaves the \<open>try\<close>
  statement, and \<open>callback_done\<close> what is seen of a callback that does not leave it.
\<close>

fun uncaught :: "work_outcome \<Rightarrow> exc option" where
  "uncaught Returns = None"
| "uncaught (Raises e) = (if isinstance e Exception then None else Some e)"

fun callback_done :: "work_outcome \<Rightarrow> real \<Rightarrow> worker_event" where
  "callback_done Returns t = WorkReturned t"
| "callback_done (Raises e) t =
     ErrorPrinted t (''[ThreadManager] Error in callback: '' @ exc_str e)"

fun collection_worker ::
  "real option \<Rightarrow> real \<Rightarrow> real \<Rightarrow> (work_outcome \<times> real) list
   \<Rightarrow> worker_event list \<times> worker_end" where
  "collection_worker stop_at interval t [] =
     ([], if is_set stop_at t then Exited t else StillRunning t)"
| "collection_worker stop_at interval t ((oc, d) # ws) =
     (if is_set stop_at t then ([], Exited t)
      else case uncaught oc of
             Some e \<Rightarrow> ([WorkStarted t], Died (t + d) e)
           | None \<Rightarrow>
               let t1 = t + d;
                   t2 = event_wait stop_at t1 interval;
                   rest = collection_worker stop_at interval t2 ws
               in ([WorkStarted t, callback_done oc t1, WaitStarted t1, WaitEnded t2]
                     @ fst rest,
                   snd rest))"

fun start_times :: "worker_event list \<Rightarrow> real list" where
  "start_times [] = []"
| "start_times (WorkStarted t # evs) = t # start_times evs"
| "start_times (ev # evs) = start_times evs"



text \<open>
  The two dictionaries go together: a registered thread carries its name, and the
  event registered under that name is the one the thread waits on.
\<close>

definition registry_synced :: "'cb thread_manager \<Rightarrow> bool" where
  "registry_synced tm =
     (\<forall>n i. threads tm n = Some i \<longrightarrow>
        i < length (pool tm) \<and> t_name (pool tm ! i) = n
        \<and> stop_events tm n = Some (t_event (pool tm ! i)))"


section \<open>Control surfaces: \<open>PowerManager\<close> and \<open>SensorsReader.set_pwm\<close>\<close>

text \<open>
  Strings are bytes: a letter outside ASCII in a message stands as its UTF-8 bytes.
  \<open>py_strip\<close> and \<open>py_split\<close> are \<open>str.strip()\<close> and \<open>str.split()\<close> on ASCII
  whitespace, \<open>py_join\<close> is \<open>sep.join(xs)\<close>.
\<close>

definition is_space :: "char \<Rightarrow> bool" where
  "is_space c =
     (c \<in> set [CHR 32, CHR 9, CHR 10, CHR 11, CHR 12, CHR 13, CHR 28, CHR 29, CHR 30, CHR 31])"

definition py_strip :: "string \<Rightarrow> string" where
  "py_strip s = rev (dropWhile is_space (rev (dropWhile is_space s)))"

fun split_words :: "string \<Rightarrow> string \<Rightarrow> string list" where
  "split_words cur [] = (if cur = [] then [] else [cur])"
| "split_words cur (c # cs) =
     (if is_space c
      then (if cur = [] then split_words [] cs else cur # split_words [] cs)
      else split_words (cur @ [c]) cs)"

definition py_split :: "string \<Rightarrow> string list" where
  "py_split s = split_words [] s"

fun py_join :: "string \<Rightarrow> string list \<Rightarrow> string" where
  "py_join sep [] = []"
| "py_join sep [x] = x"
| "py_join sep (x # y # ys) = x @ sep @ py_join sep (y # ys)"

text \<open>
  The machine as the control surfaces see it: reading the first line of a file,
  writing a file, whether the helper script exists, whether \<open>pkexec\<close> is on the
  path, the interpreter's path, the helper's path, \<open>subprocess.run\<close> of a command
  line, and \<open>int(value)\<close> inside \<open>_safe_int\<close> (\<open>None\<close> when it raises).
\<close>

record completed_process =
  returncode :: int
  cp_stdout :: string
  cp_stderr :: string

record sys_env =
  fs_readline :: "string \<Rightarrow> exc + string"
  fs_write :: "string \<Rightarrow> string \<Rightarrow> exc option"
  helper_exists :: bool
  which_pkexec :: bool
  sys_executable :: string
  helper_path :: string
  subprocess_run :: "string list \<Rightarrow> exc + completed_process"
  parse_int :: "string \<Rightarrow> int option"

text \<open>The answer \<open>{"success": ..., "message": ...}\<close> of a control surface.\<close>

record ctl_result =
  success :: bool
  message :: string

record power_manager =
  cpu_paths :: "string list"
  use_pkexec :: bool

record governors =
  gov_current :: "string option"
  gov_available :: "string list"
  gov_max_freq :: "int option"
  gov_min_freq :: "int option"

text \<open>
  \<open>_safe_read_str\<close> and \<open>_safe_write_str\<close>: \<open>except Exception\<close> turns a failure
  into the empty string and into \<open>False\<close>.
\<close>

definition safe_read_str :: "sys_env \<Rightarrow> string \<Rightarrow> exc + string" where
  "safe_read_str env path =
     (case fs_readline env path of
        Inr line \<Rightarrow> Inr (py_strip line)
      | Inl e \<Rightarrow> if isinstance e Exception then Inr [] else Inl e)"

definition safe_write_str :: "sys_env \<Rightarrow> string \<Rightarrow> string \<Rightarrow> exc + bool" where
  "safe_write_str env path v =
     (case fs_write env path v of
        None \<Rightarrow> Inr True
      | Some e \<Rightarrow> if isinstance e Exception then Inr False else Inl e)"

definition get_governors :: "power_manager \<Rightarrow> sys_env \<Rightarrow> exc + governors" where
  "get_governors pm env =
     (case cpu_paths pm of
        [] \<Rightarrow> Inr \<lparr>gov_current = None, gov_available = [], gov_max_freq = None,
                  gov_min_freq = None\<rparr>
      | path # _ \<Rightarrow>
          and_then (safe_read_str env (path @ ''/scaling_governor'')) (\<lambda>cur.
          and_then (safe_read_str env (path @ ''/scaling_available_governors'')) (\<lambda>avail.
          and_then (safe_read_str env (path @ ''/scaling_max_freq'')) (\<lambda>max_freq.
          and_then (safe_read_str env (path @ ''/scaling_min_freq'')) (\<lambda>min_freq.
            Inr \<lparr>gov_current = Some cur,
                 gov_available = (if avail \<noteq> [] then py_split avail else []),
                 gov_max_freq = parse_int env max_freq,
                 gov_min_freq = parse_int env min_freq\<rparr>)))))"

text \<open>
  \<open>_run_helper\<close>: the handler around \<open>subprocess.run\<close> takes
  \<open>subprocess.SubprocessError\<close> only.
\<close>

definition run_helper ::
  "sys_env \<Rightarrow> string option \<Rightarrow> int option \<Rightarrow> exc + ctl_result" where
  "run_helper env governor max_freq_khz =
     (if \<not> helper_exists env
      then Inr \<lparr>success = False,
                message = ''Helper de energ'' @ [CHR 0xC3, CHR 0xAD] @ ''a no encontrado''\<rparr>
      else if \<not> which_pkexec env
      then Inr \<lparr>success = False,
                message = ''pkexec no disponible para elevar privilegios''\<rparr>
      else
        let python_bin = (if sys_executable env \<noteq> [] then sys_executable env
                          else ''/usr/bin/python3'');
            cmd = [''pkexec'', python_bin, helper_path env]
                  @ (case governor of
                       None \<Rightarrow> []
                     | Some g \<Rightarrow> if g \<noteq> [] then [''--governor'', g] else [])
                  @ (case max_freq_khz of
                       None \<Rightarrow> []
                     | Some k \<Rightarrow> if k \<noteq> 0 then [''--max-freq-khz'', str_int k] else [])
        in case subprocess_run env cmd of
             Inr result \<Rightarrow>
               if returncode result = 0
               then Inr \<lparr>success = True,
                         message = (if py_strip (cp_stdout result) \<noteq> []
                                    then py_strip (cp_stdout result)
                                    else ''Perfil aplicado con pkexec'')\<rparr>
               else Inr \<lparr>success = False,
                         message = (if py_strip (cp_stderr result) \<noteq> []
                                    then py_strip (cp_stderr result)
                                    else ''pkexec fall'' @ [CHR 0xC3, CHR 0xB3]
                                         @ '' en aplicar el perfil'')\<rparr>
           | Inl e \<Rightarrow>
               if isinstance e SubprocessError
               then Inr \<lparr>success = False,
                         message = ''Error ejecutando pkexec: '' @ exc_str e\<rparr>
               else Inl e)"

text \<open>The loop of \<open>set_governor\<close> over the CPUs, collecting the paths not written.\<close>

fun write_governors ::
  "sys_env \<Rightarrow> string list \<Rightarrow> string \<Rightarrow> string list \<Rightarrow> exc + string list" where
  "write_governors env [] governor errors = Inr errors"
| "write_governors env (path # paths) governor errors =
     and_then (safe_write_str env (path @ ''/scaling_governor'') governor) (\<lambda>ok.
       write_governors env paths governor (if \<not> ok then errors @ [path] else errors))"

definition set_governor :: "power_manager \<Rightarrow> sys_env \<Rightarrow> string \<Rightarrow> exc + ctl_result" where
  "set_governor pm env governor =
     (if governor = []
      then Inr \<lparr>success = False, message = ''Gobernador no especificado''\<rparr>
      else if cpu_paths pm = []
      then Inr \<lparr>success = False,
                message = ''No se encontr'' @ [CHR 0xC3, CHR 0xB3] @ '' ruta cpufreq''\<rparr>
      else
        and_then (get_governors pm env) (\<lambda>g.
          let available = gov_available g
          in if available \<noteq> [] \<and> governor \<notin> set available
             then Inr \<lparr>success = False,
                       message = ''Gobernador '' @ [CHR 39] @ governor @ [CHR 39]
                         @ '' no soportado. Disponibles: '' @ py_join '', '' available\<rparr>
             else
               and_then (write_governors env (cpu_paths pm) governor []) (\<lambda>errors.
                 if errors \<noteq> []
                 then (if use_pkexec pm then run_helper env (Some governor) None
                       else Inr \<lparr>success = False,
                                 message = ''No se pudo escribir en ''
                                   @ str_nat (length errors)
                                   @ '' CPU(s). Requiere permisos.''\<rparr>)
                 else Inr \<lparr>success = True,
                           message = ''Gobernador establecido en '' @ [CHR 39]
                             @ governor @ [CHR 39]\<rparr>)))"

text \<open>
  \<open>SensorsReader.set_pwm\<close> (and \<open>FanManager.set_pwm\<close>, which passes the call on):
  the whole body is inside the \<open>try\<close>, with handlers for \<open>PermissionError\<close> and for
  \<open>Exception\<close>.
\<close>

definition set_pwm_try :: "sys_env \<Rightarrow> string \<Rightarrow> int \<Rightarrow> exc + ctl_result" where
  "set_pwm_try env pwm_path v =
     (if v < 0 \<or> 255 < v
      then Inr \<lparr>success = False, message = ''PWM fuera de rango (0-255)''\<rparr>
      else case fs_write env pwm_path (str_int v) of
             Some e \<Rightarrow> Inl e
           | None \<Rightarrow> Inr \<lparr>success = True, message = ''PWM ajustado a '' @ str_int v\<rparr>)"

definition set_pwm :: "sys_env \<Rightarrow> string \<Rightarrow> int \<Rightarrow> exc + ctl_result" where
  "set_pwm env pwm_path v =
     (case set_pwm_try env pwm_path v of
        Inr r \<Rightarrow> Inr r
      | Inl e \<Rightarrow>
          if isinstance e PermissionError
          then Inr \<lparr>success = False, message = ''Permiso denegado al escribir PWM''\<rparr>
          else if isinstance e Exception
          then Inr \<lparr>success = False,
                    message = ''Error al escribir PWM: '' @ exc_str e\<rparr>
          else Inl e)"

text \<open>
  A laptop of an unprivileged user: one CPU, the governor files readable but not
  writable, the helper script and \<open>pkexec\<close> in place, and a system that cannot start
  another process (\<open>fork\<close> fails, so \<open>subprocess.run\<close> raises \<open>OSError\<close>).
\<close>

definition laptop :: power_manager where
  "laptop = \<lparr>cpu_paths = [''/sys/devices/system/cpu/cpu0/cpufreq''], use_pkexec = True\<rparr>"

definition no_fork_env :: sys_env where
  "no_fork_env =
     \<lparr>fs_readline =
        (\<lambda>p. if p = ''/sys/devices/system/cpu/cpu0/cpufreq/scaling_available_governors''
             then Inr ''performance powersave''
             else Inr ''powersave''),
      fs_write = (\<lambda>p v. Some (Exc PermissionError ''Permission denied'')),
      helper_exists = True,
      which_pkexec = True,
      sys_executable = ''/usr/bin/python3'',
      helper_path = ''/opt/monitor/scripts/power_helper.py'',
      subprocess_run = (\<lambda>cmd. Inl (Exc OSError ''Resource temporarily unavailable'')),
      parse_int = (\<lambda>s. None)\<rparr>"

section \<open>Facts about the history buffer\<close>

lemma maxlen_deque_append: "maxlen (deque_append d x) = maxlen d"
  by (simp add: deque_append_def Let_def)

lemma maxlen_deque_appends: "maxlen (deque_appends d xs) = maxlen d"
  by (induction xs arbitrary: d) (simp_all add: maxlen_deque_append)

lemma items_deque_append:
  assumes "length (items d) \<le> maxlen d"
  shows "items (deque_append d x) =
         drop (length (items d @ [x]) - maxlen d) (items d @ [x])"
proof (cases "maxlen d < length (items d @ [x])")
  case True
  with assms have one: "length (items d @ [x]) - maxlen d = Suc 0" by simp
  have "drop (Suc 0) (items d @ [x]) = tl (items d @ [x])"
    by (simp only: drop_Suc drop_0)
  with True show ?thesis
    unfolding one by (simp add: deque_append_def Let_def)
next
  case False
  then show ?thesis by (simp add: deque_append_def Let_def)
qed

lemma length_deque_append:
  assumes "length (items d) \<le> maxlen d"
  shows "length (items (deque_append d x)) \<le> maxlen d"
  using assms by (simp add: deque_append_def Let_def)

lemma drop_within_append:
  "n \<le> length ys \<Longrightarrow> drop n ys @ zs = drop n (ys @ zs)"
  by simp

lemma items_deque_appends:
  assumes "length (items d) \<le> maxlen d"
  shows "items (deque_appends d xs) =
         drop (length (items d @ xs) - maxlen d) (items d @ xs)"
  using assms
proof (induction xs arbitrary: d)
  case Nil
  then show ?case by simp
next
  case (Cons x xs)
  let ?d = "deque_append d x"
  let ?k = "length (items d @ [x]) - maxlen d"
  have len: "length (items ?d) \<le> maxlen ?d"
    using Cons.prems by (simp add: length_deque_append maxlen_deque_append)
  have step: "items ?d = drop ?k (items d @ [x])"
    using Cons.prems by (rule items_deque_append)
  have k: "?k \<le> length (items d @ [x])" by simp
  have "items ?d @ xs = drop ?k ((items d @ [x]) @ xs)"
    unfolding step using k by (rule drop_within_append)
  then have app: "items ?d @ xs = drop ?k (items d @ x # xs)"
    by simp
  have "items (deque_appends d (x # xs)) =
        drop (length (items ?d @ xs) - maxlen d) (items ?d @ xs)"
    using Cons.IH [OF len] by (simp add: maxlen_deque_append)
  also have "\<dots> = drop (length (items ?d @ xs) - maxlen d + ?k) (items d @ x # xs)"
    by (simp only: app drop_drop)
  also have "length (items ?d @ xs) - maxlen d + ?k = length (items d @ x # xs) - maxlen d"
    by (simp only: app length_drop) simp
  finally show ?case .
qed

lemma snapshot_after_appends:
  "deque_list (deque_appends \<lparr>items = [], maxlen = C\<rparr> xs) = drop (length xs - C) xs"
  using items_deque_appends [of "\<lparr>items = [], maxlen = C\<rparr>" xs]
  by (simp add: deque_list_def)


section \<open>The history buffer keeps the last entries\<close>

text \<open>
  Claim C1. Take a history buffer of capacity \<open>C\<close>, empty at first, and append the
  entries \<open>xs\<close> in order, however many. The snapshot \<open>get_metrics_history\<close> taken
  afterwards has \<open>min C (length xs)\<close> entries, so never more than \<open>C\<close>, and its
  contents are the last \<open>C\<close> entries appended, oldest first (all of them while fewer
  than \<open>C\<close> were appended). An append to a buffer that is at capacity drops exactly
  the oldest entry and puts the new one last.
\<close>

theorem history_buffer_keeps_last_entries:
  "length (get_metrics_history
             (s\<lparr>metrics_history := deque_appends \<lparr>items = [], maxlen = C\<rparr> xs\<rparr>))
     = min C (length xs)
   \<and> length (get_metrics_history
             (s\<lparr>metrics_history := deque_appends \<lparr>items = [], maxlen = C\<rparr> xs\<rparr>))
     \<le> C
   \<and> get_metrics_history
        (s\<lparr>metrics_history := deque_appends \<lparr>items = [], maxlen = C\<rparr> xs\<rparr>)
     = drop (length xs - C) xs
   \<and> deque_list (deque_append \<lparr>items = y # ys, maxlen = Suc (length ys)\<rparr> x)
     = ys @ [x]"
proof -
  have snap: "get_metrics_history
        (s\<lparr>metrics_history := deque_appends \<lparr>items = [], maxlen = C\<rparr> xs\<rparr>)
     = drop (length xs - C) xs"
    by (simp add: get_metrics_history_def snapshot_after_appends)
  have evict: "deque_list (deque_append \<lparr>items = y # ys, maxlen = Suc (length ys)\<rparr> x)
     = ys @ [x]"
    by (simp add: deque_list_def deque_append_def Let_def)
  have len: "length (drop (length xs - C) xs) = min C (length xs)"
    by simp
  show ?thesis
    unfolding snap using len evict by simp
qed

section \<open>The capacity of the history buffer\<close>





section \<open>A failing metric group\<close>

lemma get_all_metrics_raises:
  assumes "get_cpu_metrics env = Inl e \<or> get_ram_metrics env = Inl e
           \<or> get_storage_metrics env = Inl e \<or> get_network_metrics sd env = Inl e"
  shows "isl (get_all_metrics sd env)"
  using assms
  by (auto simp add: get_all_metrics_def and_then_def split: sum.splits)

lemma update_metrics_on_raise:
  assumes "isl (get_all_metrics (sysdata s) env)"
    and "isinstance (projl (get_all_metrics (sysdata s) env)) Exception"
  shows "update_metrics s env =
         (s\<lparr>stdout := stdout s @
               [''[AppController] Error updating metrics: ''
                @ exc_str (projl (get_all_metrics (sysdata s) env))]\<rparr>, None)"
proof -
  from assms(1) obtain e where e: "get_all_metrics (sysdata s) env = Inl e"
    by (cases "get_all_metrics (sysdata s) env") simp_all
  with assms(2) show ?thesis
    by (simp add: update_metrics_def update_metrics_except_def)
qed

text \<open>
  Claim C3, as the code has it. When one metric group raises (the network group, say),
  \<open>get_all_metrics\<close> raises as well: no reading is produced. The collection cycle
  \<open>update_metrics\<close> catches an \<open>Exception\<close> at its boundary and prints one line; the
  current reading, the history and the system data stay as they were, and the view is
  not notified.
\<close>

theorem failed_group_skips_the_cycle:
  assumes "get_cpu_metrics env = Inl e \<or> get_ram_metrics env = Inl e
           \<or> get_storage_metrics env = Inl e
           \<or> get_network_metrics (sysdata s) env = Inl e"
    and "isinstance (projl (get_all_metrics (sysdata s) env)) Exception"
  shows "isl (get_all_metrics (sysdata s) env)
         \<and> update_metrics s env =
           (s\<lparr>stdout := stdout s @
                 [''[AppController] Error updating metrics: ''
                  @ exc_str (projl (get_all_metrics (sysdata s) env))]\<rparr>, None)"
  using get_all_metrics_raises [OF assms(1)] update_metrics_on_raise [OF _ assms(2)]
  by simp

lemma sample_cpu_ram_storage:
  "get_cpu_metrics env_network_down =
     Inr \<lparr>total_percent = 25, per_core_percent = [20, 30], core_count = Some 1,
          logical_count = Some 2,
          frequency = Some \<lparr>freq_current = 1800, freq_min = 800, freq_max = 3600\<rparr>\<rparr>"
  "\<not> isl (get_ram_metrics env_network_down)"
  "\<not> isl (get_storage_metrics env_network_down)"
  "get_network_metrics sd env_network_down = Inl (Exc OSError ''network is down'')"
  by (simp_all add: get_cpu_metrics_def get_ram_metrics_def get_storage_metrics_def
      get_network_metrics_def and_then_def env_network_down_def sample_env_def)

lemma sample_all_metrics_raises:
  "get_all_metrics sd env_network_down = Inl (Exc OSError ''network is down'')"
proof -
  obtain r where r: "get_ram_metrics env_network_down = Inr r"
    using sample_cpu_ram_storage(2) by (cases "get_ram_metrics env_network_down") simp_all
  obtain st where st: "get_storage_metrics env_network_down = Inr st"
    using sample_cpu_ram_storage(3)
    by (cases "get_storage_metrics env_network_down") simp_all
  show ?thesis
    by (simp add: get_all_metrics_def and_then_def sample_cpu_ram_storage(1,4) r st)
qed

theorem failed_group_skips_the_cycle_witness:
  "isl (get_all_metrics (sysdata sample_controller) env_network_down)
   \<and> update_metrics sample_controller env_network_down =
     (sample_controller
        \<lparr>stdout := [''[AppController] Error updating metrics: network is down'']\<rparr>, None)"
proof -
  have grp: "get_cpu_metrics env_network_down = Inl (Exc OSError ''network is down'')
      \<or> get_ram_metrics env_network_down = Inl (Exc OSError ''network is down'')
      \<or> get_storage_metrics env_network_down = Inl (Exc OSError ''network is down'')
      \<or> get_network_metrics (sysdata sample_controller) env_network_down
          = Inl (Exc OSError ''network is down'')"
    by (simp add: sample_cpu_ram_storage(4))
  have cls: "isinstance
      (projl (get_all_metrics (sysdata sample_controller) env_network_down)) Exception"
    by (simp add: sample_all_metrics_raises isinstance_def)
  show ?thesis
    using failed_group_skips_the_cycle [OF grp cls]
    by (simp add: sample_all_metrics_raises sample_controller_def)
qed

text \<open>
  Claim C3 as stated fails on the concrete machine whose network counters raise while
  CPU, RAM and storage answer: the query for the full reading raises, and after the
  cycle there is no current reading, the history is empty and the registered view
  callback has received nothing.
\<close>

theorem partial_reading_counterexample:
  "get_all_metrics (sysdata sample_controller) env_network_down
     = Inl (Exc OSError ''network is down'')
   \<and> \<not> isl (get_cpu_metrics env_network_down)
   \<and> \<not> isl (get_ram_metrics env_network_down)
   \<and> get_current_metrics (fst (update_metrics sample_controller env_network_down)) = None
   \<and> get_metrics_history (fst (update_metrics sample_controller env_network_down)) = []
   \<and> delivered (fst (update_metrics sample_controller env_network_down)) = []
   \<and> dumped (fst (update_metrics sample_controller env_network_down)) = []"
proof -
  have u: "update_metrics sample_controller env_network_down =
     (sample_controller
        \<lparr>stdout := [''[AppController] Error updating metrics: network is down'']\<rparr>, None)"
    by (simp add: update_metrics_def update_metrics_except_def sample_all_metrics_raises
        isinstance_def sample_controller_def)
  show ?thesis
    unfolding u
    by (simp add: sample_all_metrics_raises sample_cpu_ram_storage
        get_current_metrics_def get_metrics_history_def deque_list_def
        sample_controller_def)
qed

section \<open>The registry of the scheduler\<close>

lemma is_alive_printed [simp]: "is_alive (tm\<lparr>printed := p\<rparr>) i = is_alive tm i"
  by (simp add: is_alive_def)

lemma is_alive_events [simp]: "is_alive (tm\<lparr>events := p\<rparr>) i = is_alive tm i"
  by (simp add: is_alive_def)

lemma is_alive_event_set [simp]: "is_alive (event_set tm ev) i = is_alive tm i"
  by (simp add: event_set_def)

lemma is_alive_mark_finished:
  "is_alive (mark_finished tm i) j = (is_alive tm j \<and> j \<noteq> i)"
  by (auto simp add: mark_finished_def is_alive_def nth_list_update)

lemma registry_ok_init: "registry_ok ThreadManager_init"
  by (simp add: registry_ok_def is_alive_def ThreadManager_init_def)

lemma registry_ok_mark_finished:
  assumes "registry_ok tm"
  shows "registry_ok (mark_finished tm i)"
  unfolding registry_ok_def
proof (intro allI impI)
  fix j
  assume "is_alive (mark_finished tm i) j"
  then have a: "is_alive tm j" and ne: "j \<noteq> i"
    by (simp_all add: is_alive_mark_finished)
  from a assms have "threads tm (t_name (pool tm ! j)) = Some j"
    by (simp add: registry_ok_def)
  with ne show "threads (mark_finished tm i) (t_name (pool (mark_finished tm i) ! j)) = Some j"
    by (simp add: mark_finished_def)
qed

lemma registry_ok_printed [simp]: "registry_ok (tm\<lparr>printed := p\<rparr>) = registry_ok tm"
  by (simp add: registry_ok_def is_alive_def)

lemma registry_ok_event_set [simp]: "registry_ok (event_set tm ev) = registry_ok tm"
  by (simp add: registry_ok_def is_alive_def event_set_def)

lemma registry_ok_stop:
  assumes "registry_ok tm"
  shows "registry_ok (fst (stop_thread tm thread_name timeout now exit_at))"
  using assms
  by (simp add: stop_thread_def Let_def registry_ok_mark_finished
      split: option.splits)

lemma registry_ok_start:
  assumes "registry_ok tm"
  shows "registry_ok (fst (start_data_collection_thread tm cb iv name st))"
proof (cases "case threads tm name of None \<Rightarrow> False | Some i \<Rightarrow> is_alive tm i")
  case True
  with assms show ?thesis by (simp add: start_data_collection_thread_def)
next
  case False
  have old: "threads tm (t_name (pool tm ! j)) = Some j \<and> t_name (pool tm ! j) \<noteq> name"
    if "is_alive tm j" for j
  proof -
    from that assms have r: "threads tm (t_name (pool tm ! j)) = Some j"
      by (simp add: registry_ok_def)
    with False that have "t_name (pool tm ! j) \<noteq> name" by auto
    with r show ?thesis by simp
  qed
  show ?thesis
  proof (cases st)
    case (Some e)
    with False show ?thesis
      using old
      by (auto simp add: start_data_collection_thread_def Let_def registry_ok_def
          is_alive_def nth_append split: if_splits)
  next
    case None
    with False show ?thesis
      using old
      by (auto simp add: start_data_collection_thread_def Let_def registry_ok_def
          is_alive_def nth_append split: if_splits)
  qed
qed

lemma reachable_registry_ok: "reachable tm \<Longrightarrow> registry_ok tm"
  by (induction rule: reachable.induct)
     (simp_all add: registry_ok_init registry_ok_start registry_ok_stop
        registry_ok_mark_finished)

text \<open>
  Claim C2. In every state that the manager can reach, \<open>start\<close> of a name whose
  registered thread is alive returns \<open>False\<close>, raises nothing and leaves the registry,
  the threads and the events as they are: only the line "already running" is printed.
  And in every such state two alive threads have different names, so at most one
  task per name is active.
\<close>

theorem second_start_is_refused:
  assumes "reachable tm"
  shows "(is_thread_running tm name \<longrightarrow>
            start_data_collection_thread tm cb iv name st =
              (tm\<lparr>printed := printed tm @ [AlreadyRunning name]\<rparr>, Inr False))
         \<and> (\<forall>i j. is_alive tm i \<and> is_alive tm j
                    \<and> t_name (pool tm ! i) = t_name (pool tm ! j) \<longrightarrow> i = j)"
proof (intro conjI impI allI)
  assume "is_thread_running tm name"
  then show "start_data_collection_thread tm cb iv name st =
              (tm\<lparr>printed := printed tm @ [AlreadyRunning name]\<rparr>, Inr False)"
    by (simp add: is_thread_running_def start_data_collection_thread_def)
next
  fix i j
  assume a: "is_alive tm i \<and> is_alive tm j
             \<and> t_name (pool tm ! i) = t_name (pool tm ! j)"
  from assms have "registry_ok tm" by (rule reachable_registry_ok)
  then have reg: "threads tm (t_name (pool tm ! k)) = Some k" if "is_alive tm k" for k
    using that unfolding registry_ok_def by blast
  from a have ai: "is_alive tm i" and aj: "is_alive tm j"
    and nm: "t_name (pool tm ! i) = t_name (pool tm ! j)"
    by simp_all
  from reg [OF ai] reg [OF aj] show "i = j"
    unfolding nm by simp
qed

lemma tm_running_m_eq:
  "tm_running_m =
     \<lparr>threads = [''m'' \<mapsto> 0], stop_events = [''m'' \<mapsto> 0],
      pool = [\<lparr>t_name = ''m'', t_callback = (), t_interval = 2, t_event = 0,
               t_started = True, t_finished = False\<rparr>],
      events = [False], printed = [StartedWith ''m'' 2]\<rparr>"
  by (simp add: tm_running_m_def start_data_collection_thread_def ThreadManager_init_def
      Let_def)

theorem second_start_is_refused_witness:
  "reachable tm_running_m
   \<and> is_thread_running tm_running_m ''m''
   \<and> start_data_collection_thread tm_running_m () 2 ''m'' None =
       (tm_running_m\<lparr>printed := [StartedWith ''m'' 2, AlreadyRunning ''m'']\<rparr>, Inr False)
   \<and> pool (fst (start_data_collection_thread tm_running_m () 2 ''m'' None))
       = pool tm_running_m"
proof -
  have r: "reachable tm_running_m"
    unfolding tm_running_m_def by (rule reach_start [OF reach_init])
  have run: "is_thread_running tm_running_m ''m''"
    by (simp add: tm_running_m_eq is_thread_running_def is_alive_def)
  from second_start_is_refused
         [OF r, where name = "''m''" and cb = "()" and iv = 2 and st = None] run
  have "start_data_collection_thread tm_running_m () 2 ''m'' None =
          (tm_running_m\<lparr>printed := printed tm_running_m @ [AlreadyRunning ''m'']\<rparr>,
           Inr False)"
    by blast
  then show ?thesis
    using r run by (simp add: tm_running_m_eq)
qed

text \<open>
  Claim C9. \<open>stop_thread\<close> of a name that is not in the registry returns \<open>False\<close> at
  once. \<open>stop_thread\<close> of a name whose registered thread is not alive returns \<open>True\<close>
  at once: the call comes back at the time it was made, no event is set and no thread
  is joined, only a line is printed. Neither case raises.
\<close>

theorem stop_of_absent_or_ended_task:
  "(threads tm name = None \<longrightarrow>
      stop_thread tm name timeout now exit_at =
        (tm\<lparr>printed := printed tm @ [NotFound name]\<rparr>, False, now))
   \<and> (threads tm name = Some i \<and> \<not> is_alive tm i \<longrightarrow>
      stop_thread tm name timeout now exit_at =
        (tm\<lparr>printed := printed tm @ [NotRunning name]\<rparr>, True, now))"
  by (simp add: stop_thread_def)

lemma tm_ended_m_eq:
  "tm_ended_m =
     \<lparr>threads = [''m'' \<mapsto> 0], stop_events = [''m'' \<mapsto> 0],
      pool = [\<lparr>t_name = ''m'', t_callback = (), t_interval = 2, t_event = 0,
               t_started = True, t_finished = True\<rparr>],
      events = [False], printed = [StartedWith ''m'' 2]\<rparr>"
  by (simp add: tm_ended_m_def tm_running_m_eq mark_finished_def)

theorem stop_of_absent_or_ended_task_witness:
  "threads (ThreadManager_init :: unit thread_manager) ''m'' = None
   \<and> stop_thread (ThreadManager_init :: unit thread_manager) ''m'' 5 7 None =
       (ThreadManager_init\<lparr>printed := [NotFound ''m'']\<rparr>, False, 7)
   \<and> threads tm_ended_m ''m'' = Some 0 \<and> \<not> is_alive tm_ended_m 0
   \<and> stop_thread tm_ended_m ''m'' 5 7 None =
       (tm_ended_m\<lparr>printed := [StartedWith ''m'' 2, NotRunning ''m'']\<rparr>, True, 7)
   \<and> events (fst (stop_thread tm_ended_m ''m'' 5 7 None)) = [False]"
proof -
  have a: "threads (ThreadManager_init :: unit thread_manager) ''m'' = None"
    by (simp add: ThreadManager_init_def)
  have b: "threads tm_ended_m ''m'' = Some 0 \<and> \<not> is_alive tm_ended_m 0"
    by (simp add: tm_ended_m_eq is_alive_def)
  from stop_of_absent_or_ended_task
         [where tm = "ThreadManager_init :: unit thread_manager" and name = "''m''"
            and timeout = 5 and now = 7 and exit_at = None and i = 0] a
  have c: "stop_thread (ThreadManager_init :: unit thread_manager) ''m'' 5 7 None =
       (ThreadManager_init\<lparr>printed := [NotFound ''m'']\<rparr>, False, 7)"
    by (simp add: ThreadManager_init_def)
  from stop_of_absent_or_ended_task
         [where tm = tm_ended_m and name = "''m''" and timeout = 5 and now = 7
            and exit_at = None and i = 0] b
  have d: "stop_thread tm_ended_m ''m'' 5 7 None =
       (tm_ended_m\<lparr>printed := printed tm_ended_m @ [NotRunning ''m'']\<rparr>, True, 7)"
    by blast
  show ?thesis
    using a b c unfolding d by (simp add: tm_ended_m_eq)
qed



section \<open>The worker loop and the clock\<close>


lemma worker_cycle:
  assumes "\<not> is_set stop_at t" and "uncaught oc = None"
  shows "collection_worker stop_at iv t ((oc, d) # ws) =
     ([WorkStarted t, callback_done oc (t + d), WaitStarted (t + d),
       WaitEnded (event_wait stop_at (t + d) iv)]
        @ fst (collection_worker stop_at iv (event_wait stop_at (t + d) iv) ws),
      snd (collection_worker stop_at iv (event_wait stop_at (t + d) iv) ws))"
  using assms by (simp add: Let_def)

text \<open>
  Claim C4, as the code has it. Let the callback raise an instance of \<open>Exception\<close>
  in a cycle that the worker begins (the stop event is not set at the loop test). The
  handler prints one line with the text of the exception, and the worker goes on to
  \<open>stop_event.wait(interval)\<close> and to the rest of the loop exactly as after a callback
  that returned: from the wait on, the events are the same and the loop ends the same
  way.
\<close>

theorem caught_exception_keeps_the_loop:
  assumes "isinstance e Exception" and "\<not> is_set stop_at t"
  shows "collection_worker stop_at iv t ((Raises e, d) # ws) =
     ([WorkStarted t,
       ErrorPrinted (t + d) (''[ThreadManager] Error in callback: '' @ exc_str e),
       WaitStarted (t + d),
       WaitEnded (event_wait stop_at (t + d) iv)]
        @ fst (collection_worker stop_at iv (event_wait stop_at (t + d) iv) ws),
      snd (collection_worker stop_at iv (event_wait stop_at (t + d) iv) ws))
    \<and> snd (collection_worker stop_at iv t ((Raises e, d) # ws))
        = snd (collection_worker stop_at iv t ((Returns, d) # ws))
    \<and> drop 2 (fst (collection_worker stop_at iv t ((Raises e, d) # ws)))
        = drop 2 (fst (collection_worker stop_at iv t ((Returns, d) # ws)))"
proof -
  have r: "uncaught (Raises e) = None" using assms(1) by simp
  have n: "uncaught Returns = None" by simp
  show ?thesis
    unfolding worker_cycle [OF assms(2) r] worker_cycle [OF assms(2) n]
    by simp
qed

theorem caught_exception_keeps_the_loop_witness:
  "isinstance (Exc ValueError ''boom'') Exception \<and> \<not> is_set None 0
   \<and> collection_worker None 2 0 [(Raises (Exc ValueError ''boom''), 1), (Returns, 1)] =
     ([WorkStarted 0, ErrorPrinted 1 ''[ThreadManager] Error in callback: boom'',
       WaitStarted 1, WaitEnded 3,
       WorkStarted 3, WorkReturned 4, WaitStarted 4, WaitEnded 6], StillRunning 6)"
proof -
  have a: "isinstance (Exc ValueError ''boom'') Exception" by (simp add: isinstance_def)
  have b: "\<not> is_set None 0" by (simp add: is_set_def)
  from caught_exception_keeps_the_loop [OF a b, of 2 1 "[(Returns, 1)]"]
  show ?thesis using a b
    by (simp add: event_wait_def is_set_def Let_def)
qed

text \<open>
  Claim C4 as stated, for every exception, fails for a callback that raises
  \<open>SystemExit\<close>, which does not derive from \<open>Exception\<close>: the handler does not take
  it, nothing is printed, the worker does not wait and the thread dies with the
  exception; the second invocation never begins.
\<close>

theorem system_exit_ends_the_loop_counterexample:
  "collection_worker None 2 0 [(Raises (Exc SystemExit ''bye''), 1), (Returns, 1)] =
     ([WorkStarted 0], Died 1 (Exc SystemExit ''bye''))"
  by (simp add: is_set_def isinstance_def)

text \<open>
  Claim C6, as the code has it. In a worker that is not stopped, with a non-negative
  interval, a callback that takes \<open>d\<close> seconds and returns (or raises an \<open>Exception\<close>)
  is followed by a wait of the full interval, from \<open>t + d\<close> to \<open>t + d + interval\<close>,
  and the next invocation begins at \<open>t + d + interval\<close>: successive invocations begin
  \<open>d + interval\<close> apart. The interval is measured from the end of the callback.
\<close>

theorem full_interval_after_work:
  assumes "0 \<le> iv" and "uncaught oc = None"
  shows "take 2 (start_times
           (fst (collection_worker None iv t ((oc, d) # (oc', d') # ws)))) = [t, t + d + iv]
    \<and> take 4 (fst (collection_worker None iv t ((oc, d) # (oc', d') # ws))) =
        [WorkStarted t, callback_done oc (t + d), WaitStarted (t + d),
         WaitEnded (t + d + iv)]"
proof -
  have n: "\<not> is_set None x" for x by (simp add: is_set_def)
  have w: "event_wait None (t + d) iv = t + d + iv"
    using assms(1) by (simp add: event_wait_def)
  have c: "callback_done oc (t + d) \<noteq> WorkStarted x" for x
    by (cases oc) simp_all
  have s: "start_times (callback_done oc b # WaitStarted c # WaitEnded e # evs)
           = start_times evs" for b c e evs
    by (cases oc) simp_all
  have second: "\<exists>evs. fst (collection_worker None iv (t + d + iv) ((oc', d') # ws))
                  = WorkStarted (t + d + iv) # evs"
    by (cases "uncaught oc'") (simp_all add: n Let_def)
  then obtain evs where e: "fst (collection_worker None iv (t + d + iv) ((oc', d') # ws))
                  = WorkStarted (t + d + iv) # evs" ..
  show ?thesis
    unfolding worker_cycle [OF n assms(2)] w
    by (simp add: s e del: collection_worker.simps)
qed

theorem full_interval_after_work_witness:
  "(0::real) \<le> 2 \<and> uncaught Returns = None
   \<and> start_times (fst (collection_worker None 2 0 [(Returns, 1), (Returns, 1)])) = [0, 3]"
proof -
  have a: "(0::real) \<le> 2" by simp
  have b: "uncaught Returns = None" by simp
  from full_interval_after_work [OF a b, of 0 1 Returns 1 "[]"]
  show ?thesis by (simp add: event_wait_def is_set_def Let_def)
qed

text \<open>
  Claim C6 as stated fails for an interval of 2 s and a callback that takes 1 s: the
  worker waits from 1 to 3, the whole interval and not the remaining second, and
  the second invocation begins at 3, not at 2.
\<close>

theorem interval_from_start_counterexample:
  "(0::real) < 1 \<and> (1::real) < 2
   \<and> collection_worker None 2 0 [(Returns, 1), (Returns, 1)] =
       ([WorkStarted 0, WorkReturned 1, WaitStarted 1, WaitEnded 3,
         WorkStarted 3, WorkReturned 4, WaitStarted 4, WaitEnded 6], StillRunning 6)
   \<and> start_times (fst (collection_worker None 2 0 [(Returns, 1), (Returns, 1)]))
       \<noteq> [0, 0 + 2]"
  by (simp add: event_wait_def is_set_def Let_def)



section \<open>Stopping a running task\<close>

lemma events_mark_finished [simp]: "events (mark_finished tm i) = events tm"
  by (simp add: mark_finished_def)



lemma registry_synced_printed [simp]:
  "registry_synced (tm\<lparr>printed := p\<rparr>) = registry_synced tm"
  by (simp add: registry_synced_def)

lemma registry_synced_event_set [simp]:
  "registry_synced (event_set tm ev) = registry_synced tm"
  by (simp add: registry_synced_def event_set_def)









section \<open>The answers of the control surfaces\<close>

lemma set_pwm_answers:
  assumes "\<And>e. fs_write env pwm_path (str_int v) = Some e \<Longrightarrow> isinstance e Exception"
  shows "\<not> isl (set_pwm env pwm_path v)"
  using assms
  by (auto simp add: set_pwm_def set_pwm_try_def split: option.splits sum.splits)

lemma safe_read_str_answers:
  assumes "\<And>p e. fs_readline env p = Inl e \<Longrightarrow> isinstance e Exception"
  shows "\<not> isl (safe_read_str env path)"
  using assms by (auto simp add: safe_read_str_def split: sum.splits)

lemma safe_write_str_answers:
  assumes "\<And>p v e. fs_write env p v = Some e \<Longrightarrow> isinstance e Exception"
  shows "\<not> isl (safe_write_str env path v)"
  using assms by (auto simp add: safe_write_str_def split: option.splits)

lemma not_isl_and_then:
  "\<not> isl r \<Longrightarrow> (\<And>v. \<not> isl (f v)) \<Longrightarrow> \<not> isl (and_then r f)"
  by (cases r) (simp_all add: and_then_def)

lemma get_governors_answers:
  assumes "\<And>p e. fs_readline env p = Inl e \<Longrightarrow> isinstance e Exception"
  shows "\<not> isl (get_governors pm env)"
proof (cases "cpu_paths pm")
  case Nil
  then show ?thesis by (simp add: get_governors_def)
next
  case (Cons path rest)
  have r: "\<not> isl (safe_read_str env p)" for p
    using assms by (rule safe_read_str_answers)
  show ?thesis
    unfolding get_governors_def Cons list.case
    by (intro not_isl_and_then r) simp
qed

lemma write_governors_answers:
  assumes "\<And>p v e. fs_write env p v = Some e \<Longrightarrow> isinstance e Exception"
  shows "\<not> isl (write_governors env paths governor errors)"
proof (induction paths arbitrary: errors)
  case Nil
  then show ?case by simp
next
  case (Cons path paths)
  have w: "\<not> isl (safe_write_str env p v)" for p v
    using assms by (rule safe_write_str_answers)
  show ?case
    unfolding write_governors.simps
    by (intro not_isl_and_then w Cons.IH)
qed

lemma run_helper_answers:
  assumes "\<And>cmd e. subprocess_run env cmd = Inl e \<Longrightarrow> isinstance e SubprocessError"
  shows "\<not> isl (run_helper env governor max_freq_khz)"
  using assms
  by (auto simp add: run_helper_def Let_def split: sum.splits)

lemma set_governor_answers:
  assumes "\<And>p e. fs_readline env p = Inl e \<Longrightarrow> isinstance e Exception"
    and "\<And>p v e. fs_write env p v = Some e \<Longrightarrow> isinstance e Exception"
    and "\<not> use_pkexec pm
         \<or> (\<forall>cmd e. subprocess_run env cmd = Inl e \<longrightarrow> isinstance e SubprocessError)"
  shows "\<not> isl (set_governor pm env governor)"
proof -
  have g: "\<not> isl (get_governors pm env)"
    using assms(1) by (rule get_governors_answers)
  have w: "\<not> isl (write_governors env paths governor errors)" for paths errors
    using assms(2) by (rule write_governors_answers)
  have h: "use_pkexec pm \<Longrightarrow> \<not> isl (run_helper env (Some governor) None)"
    using assms(3) by (intro run_helper_answers) blast
  from g obtain gv where gv: "get_governors pm env = Inr gv"
    by (cases "get_governors pm env") simp_all
  from w [of "cpu_paths pm" "[]"]
  obtain errs where errs: "write_governors env (cpu_paths pm) governor [] = Inr errs"
    by (cases "write_governors env (cpu_paths pm) governor []") simp_all
  show ?thesis
    using h by (simp add: set_governor_def Let_def and_then_def gv errs)
qed

text \<open>
  Claim C8 holds on every path but one. \<open>set_pwm\<close> answers with a result whatever
  the write does, and so does \<open>set_governor\<close> as long as \<open>pkexec\<close> is not used or
  \<open>subprocess.run\<close> raises nothing but \<open>SubprocessError\<close> (the two lemmas above).
  The handler in \<open>_run_helper\<close> takes \<open>SubprocessError\<close> only, where the handlers
  of \<open>_safe_write_str\<close> and \<open>set_pwm\<close> take \<open>Exception\<close>. On the laptop of an
  unprivileged user whose system cannot start another process, \<open>subprocess.run\<close>
  raises \<open>OSError\<close>, an instance of \<open>Exception\<close>, and \<open>set_governor\<close> passes it on
  to its caller instead of answering with \<open>success = False\<close>; \<open>set_pwm\<close> on the same
  machine answers with the denied permission.
\<close>

theorem helper_launch_error_escapes:
  "set_governor laptop no_fork_env ''performance''
     = Inl (Exc OSError ''Resource temporarily unavailable'')
   \<and> isinstance (Exc OSError ''Resource temporarily unavailable'') Exception
   \<and> set_pwm no_fork_env ''/sys/class/hwmon/hwmon2/pwm1'' 128
     = Inr \<lparr>success = False, message = ''Permiso denegado al escribir PWM''\<rparr>"
proof -
  have av: "py_split (py_strip ''performance powersave'') = [''performance'', ''powersave'']"
    by (simp add: py_split_def py_strip_def is_space_def)
  have g: "get_governors laptop no_fork_env =
      Inr \<lparr>gov_current = Some ''powersave'',
           gov_available = [''performance'', ''powersave''],
           gov_max_freq = None, gov_min_freq = None\<rparr>"
    using av
    by (simp add: get_governors_def laptop_def no_fork_env_def and_then_def
        safe_read_str_def py_strip_def is_space_def)
  have w: "write_governors no_fork_env (cpu_paths laptop) ''performance'' []
           = Inr [''/sys/devices/system/cpu/cpu0/cpufreq'']"
    by (simp add: laptop_def no_fork_env_def and_then_def safe_write_str_def
        isinstance_def)
  have h: "run_helper no_fork_env (Some ''performance'') None
           = Inl (Exc OSError ''Resource temporarily unavailable'')"
    by (simp add: run_helper_def no_fork_env_def Let_def isinstance_def)
  have s: "set_governor laptop no_fork_env ''performance''
           = Inl (Exc OSError ''Resource temporarily unavailable'')"
    unfolding set_governor_def g w h and_then_def
    by (simp add: laptop_def)
  have p: "set_pwm no_fork_env ''/sys/class/hwmon/hwmon2/pwm1'' 128
     = Inr \<lparr>success = False, message = ''Permiso denegado al escribir PWM''\<rparr>"
    by (simp add: set_pwm_def set_pwm_try_def no_fork_env_def isinstance_def)
  show ?thesis
    using s p by (simp add: isinstance_def)
qed

section \<open>Cycles and the capacity of the history\<close>















section \<open>The answers of \<open>kill_process\<close>\<close>

lemma kill_process_except_Exception:
  assumes "isinstance e Exception"
  shows "kill_process_except pid e =
     Inr \<lparr>kr_success = False,
          kr_message =
            (if isinstance e NoSuchProcess
             then ''Process with PID '' @ str_int pid @ '' does not exist.''
             else if isinstance e AccessDenied
             then ''Access denied. Cannot terminate process with PID ''
                  @ str_int pid @ ''. Try running with elevated privileges.''
             else ''Error terminating process with PID '' @ str_int pid
                  @ '': '' @ exc_str e),
          kr_pid = pid\<rparr>"
  using assms by (simp add: kill_process_except_def)

text \<open>
  Claim C10, as the code has it. Let every exception that psutil raises for \<open>pid\<close>
  derive from \<open>Exception\<close>. Then \<open>kill_process\<close> raises nothing and returns a
  dictionary with \<open>success\<close>, a non-empty \<open>message\<close> and \<open>pid\<close>, the latter equal
  to the argument, and the dictionary is fixed by what psutil answers, call by call.
  When building the process object, reading its name, sending the signal or waiting
  raises (a wait timeout apart), the result is \<open>failed e\<close>: \<open>success = False\<close> with the
  message for a process that does not exist (\<open>NoSuchProcess\<close> and its subclass
  \<open>ZombieProcess\<close>), for access denied, or with the text of any other exception.
  When the wait times out after SIGTERM (\<open>force\<close> false), the result has
  \<open>success = False\<close> and asks for \<open>force=True\<close>. When the wait times out after
  SIGKILL (\<open>force\<close> true), or when the wait returns, the result has \<open>success = True\<close>.
\<close>

theorem kill_process_always_answers:
  assumes "list_all (\<lambda>e. isinstance e Exception) (ps_raises env pid)"
  shows
   "let failed = (\<lambda>e.
          \<lparr>kr_success = False,
           kr_message =
             (if isinstance e NoSuchProcess
              then ''Process with PID '' @ str_int pid @ '' does not exist.''
              else if isinstance e AccessDenied
              then ''Access denied. Cannot terminate process with PID ''
                   @ str_int pid @ ''. Try running with elevated privileges.''
              else ''Error terminating process with PID '' @ str_int pid
                   @ '': '' @ exc_str e),
           kr_pid = pid\<rparr>);
        signal = (if force then ps_kill env pid else ps_terminate env pid);
        ended = (\<lambda>n.
          \<lparr>kr_success = True,
           kr_message = ''Process '' @ [CHR 39] @ n @ [CHR 39] @ '' (PID: ''
             @ str_int pid @ '') was ''
             @ (if force then ''killed (SIGKILL)'' else ''terminated (SIGTERM)'')
             @ '' successfully.'',
           kr_pid = pid\<rparr>)
    in \<not> isl (kill_process env pid force)
     \<and> kr_pid (projr (kill_process env pid force)) = pid
     \<and> kr_message (projr (kill_process env pid force)) \<noteq> []
     \<and> (\<forall>e. ps_Process env pid = Some e \<longrightarrow>
            kill_process env pid force = Inr (failed e))
     \<and> (\<forall>e. ps_Process env pid = None \<and> ps_name env pid = Inl e \<longrightarrow>
            kill_process env pid force = Inr (failed e))
     \<and> (\<forall>n e. ps_Process env pid = None \<and> ps_name env pid = Inr n \<and> signal = Some e \<longrightarrow>
            kill_process env pid force = Inr (failed e))
     \<and> (\<forall>n e. ps_Process env pid = None \<and> ps_name env pid = Inr n \<and> signal = None
              \<and> ps_wait env pid = Some e \<and> \<not> isinstance e PsTimeoutExpired \<longrightarrow>
            kill_process env pid force = Inr (failed e))
     \<and> (\<forall>n e. ps_Process env pid = None \<and> ps_name env pid = Inr n \<and> signal = None
              \<and> ps_wait env pid = Some e \<and> isinstance e PsTimeoutExpired \<and> \<not> force \<longrightarrow>
            kill_process env pid force =
              Inr \<lparr>kr_success = False,
                   kr_message = ''Process '' @ [CHR 39] @ n @ [CHR 39] @ '' (PID: ''
                     @ str_int pid
                     @ '') did not terminate gracefully. Try with force=True.'',
                   kr_pid = pid\<rparr>)
     \<and> (\<forall>n e. ps_Process env pid = None \<and> ps_name env pid = Inr n \<and> signal = None
              \<and> ps_wait env pid = Some e \<and> isinstance e PsTimeoutExpired \<and> force \<longrightarrow>
            kill_process env pid force = Inr (ended n))
     \<and> (\<forall>n. ps_Process env pid = None \<and> ps_name env pid = Inr n \<and> signal = None
              \<and> ps_wait env pid = None \<longrightarrow>
            kill_process env pid force = Inr (ended n))"
proof -
  have ex: "isinstance e Exception" if "e \<in> set (ps_raises env pid)" for e
    using assms that by (simp add: list_all_iff)
  have p: "isinstance e Exception" if "ps_Process env pid = Some e" for e
    using that by (intro ex) (simp add: ps_raises_def)
  have n: "isinstance e Exception" if "ps_name env pid = Inl e" for e
    using that by (intro ex) (simp add: ps_raises_def)
  have k: "isinstance e Exception" if "ps_kill env pid = Some e" for e
    using that by (intro ex) (simp add: ps_raises_def)
  have t: "isinstance e Exception" if "ps_terminate env pid = Some e" for e
    using that by (intro ex) (simp add: ps_raises_def)
  have w: "isinstance e Exception" if "ps_wait env pid = Some e" for e
    using that by (intro ex) (simp add: ps_raises_def)
  show ?thesis
  proof (cases "ps_Process env pid")
    case (Some e)
    with p [OF Some] show ?thesis
      by (simp add: kill_process_def kill_process_try_def and_then_def raised_def
          kill_process_except_Exception Let_def)
  next
    case None
    note proc = None
    show ?thesis
    proof (cases "ps_name env pid")
      case (Inl e)
      with proc n [OF Inl] show ?thesis
        by (simp add: kill_process_def kill_process_try_def and_then_def raised_def
            kill_process_except_Exception Let_def)
    next
      case (Inr nm)
      note name = Inr
      show ?thesis
      proof (cases "if force then ps_kill env pid else ps_terminate env pid")
        case (Some e)
        then have "isinstance e Exception"
          using k [of e] t [of e] by (cases force) simp_all
        with proc name Some show ?thesis
          by (simp add: kill_process_def kill_process_try_def and_then_def raised_def
              kill_process_except_Exception Let_def)
      next
        case None
        note sig = None
        show ?thesis
        proof (cases "ps_wait env pid")
          case None
          with proc name sig show ?thesis
            by (simp add: kill_process_def kill_process_try_def and_then_def raised_def
                Let_def)
        next
          case (Some e)
          note wait = Some
          show ?thesis
          proof (cases "isinstance e PsTimeoutExpired")
            case False
            with proc name sig wait w [OF wait] show ?thesis
              by (simp add: kill_process_def kill_process_try_def and_then_def raised_def
                  kill_process_except_Exception Let_def)
          next
            case True
            with proc name sig wait show ?thesis
              by (cases force)
                 (simp_all add: kill_process_def kill_process_try_def and_then_def
                    raised_def Let_def)
          qed
        qed
      qed
    qed
  qed
qed

lemma str_int_4242: "str_int 4242 = ''4242''"
  by (simp add: str_int_def str_nat.simps)

theorem kill_process_always_answers_witness:
  "list_all (\<lambda>e. isinstance e Exception) (ps_raises no_such_process_env 4242)
   \<and> kill_process no_such_process_env 4242 False =
     Inr \<lparr>kr_success = False,
          kr_message = ''Process with PID 4242 does not exist.'',
          kr_pid = 4242\<rparr>"
proof -
  have h: "list_all (\<lambda>e. isinstance e Exception) (ps_raises no_such_process_env 4242)"
    by (simp add: ps_raises_def no_such_process_env_def isinstance_def)
  have p: "ps_Process no_such_process_env 4242
           = Some (Exc NoSuchProcess ''process no longer exists'')"
    by (simp add: no_such_process_env_def)
  from kill_process_always_answers [OF h, of False] p
  have "kill_process no_such_process_env 4242 False =
     Inr \<lparr>kr_success = False,
          kr_message =
            (if isinstance (Exc NoSuchProcess ''process no longer exists'') NoSuchProcess
             then ''Process with PID '' @ str_int 4242 @ '' does not exist.''
             else if isinstance (Exc NoSuchProcess ''process no longer exists'') AccessDenied
             then ''Access denied. Cannot terminate process with PID ''
                  @ str_int 4242 @ ''. Try running with elevated privileges.''
             else ''Error terminating process with PID '' @ str_int 4242
                  @ '': '' @ exc_str (Exc NoSuchProcess ''process no longer exists'')),
          kr_pid = 4242\<rparr>"
    unfolding Let_def by blast
  then show ?thesis
    using h by (simp add: isinstance_def str_int_4242)
qed

text \<open>
  Claim C10 as stated, every failure gives \<open>success = False\<close>, fails for a process
  that takes SIGKILL but is still there when the wait of three seconds times out:
  with \<open>force\<close> true the handler of the timeout lets the call go on, and the result
  says that the process was killed successfully. With \<open>force\<close> false the same
  timeout gives \<open>success = False\<close>.
\<close>

theorem forced_kill_timeout_counterexample:
  "ps_wait lingering_process_env 4242 = Some (Exc PsTimeoutExpired ''timeout after 3 seconds'')
   \<and> kill_process lingering_process_env 4242 True =
       Inr \<lparr>kr_success = True,
            kr_message = ''Process '' @ [CHR 39] @ ''sleep'' @ [CHR 39]
              @ '' (PID: 4242) was killed (SIGKILL) successfully.'',
            kr_pid = 4242\<rparr>
   \<and> kill_process lingering_process_env 4242 False =
       Inr \<lparr>kr_success = False,
            kr_message = ''Process '' @ [CHR 39] @ ''sleep'' @ [CHR 39]
              @ '' (PID: 4242) did not terminate gracefully. Try with force=True.'',
            kr_pid = 4242\<rparr>"
  by (simp add: kill_process_def kill_process_try_def and_then_def raised_def
      lingering_process_env_def isinstance_def Let_def str_int_4242)

end
